theory Spec2Isabelle
  imports Main "HOL-Library.AList"
begin

section \<open>Python values, dictionaries and exceptions\<close>

text \<open>
  Modelled from the spec: \<^verbatim>\<open>agents/workflow.py\<close>, which declares the enum
  \<^verbatim>\<open>WorkflowState\<close>, is not among the sources. The members are the stages of the
  spec's data model (section 3): the normal progression from INITIALIZE to COMPLETE, and
  ERROR. The source itself names INITIALIZE, ERROR and COMPLETE only. The enum is taken
  to be a plain \<^verbatim>\<open>Enum\<close>: members are compared by identity, are truthy, and have
  no length.
\<close>

datatype WorkflowState =
  INITIALIZE | SCAN | RESEARCH | FIX | REVIEW | PUBLISH | SUMMARIZE | COMPLETE | ERROR

text \<open>
  The Python values that occur in the workflow state and in the result dictionaries:
  \<^verbatim>\<open>None\<close>, strings, integers, lists, dictionaries (association lists in insertion
  order, the first binding of a key being the one looked up), members of
  \<^verbatim>\<open>WorkflowState\<close>, and \<^verbatim>\<open>HumanMessage\<close> objects (their content).
\<close>

datatype pyval =
    PNone
  | PStr string
  | PInt int
  | PList "pyval list"
  | PDict "(string \<times> pyval) list"
  | PEnum WorkflowState
  | PMsg string

type_synonym pydict = "(string \<times> pyval) list"

text \<open>
  The exceptions that are subclasses of \<^verbatim>\<open>Exception\<close>. \<open>KeyError k\<close> is a
  \<^verbatim>\<open>KeyError\<close> whose only argument is the string \<open>k\<close>, as a failed subscript
  raises it. The other members carry the text that \<^verbatim>\<open>str\<close> gives for them:
  \<open>ValueError\<close> and \<open>OSError\<close> stand for an instance of that class or of one of its
  subclasses (\<^verbatim>\<open>ConnectionError\<close> is a subclass of \<^verbatim>\<open>OSError\<close>), and
  \<open>Raised\<close> for an instance of any other subclass of \<^verbatim>\<open>Exception\<close>, whatever
  its arguments.
\<close>

datatype exn =
    KeyError string
  | TypeError string
  | AttributeError string
  | ValueError string
  | OSError string
  | Raised string

text \<open>
  The exceptions that are not subclasses of \<^verbatim>\<open>Exception\<close>: a clause
  \<^verbatim>\<open>except Exception\<close> does not catch them. What a call raises is a
  \<open>base_exn + exn\<close>.
\<close>

datatype base_exn = KeyboardInterrupt | SystemExit | GeneratorExit

definition type_name :: "pyval \<Rightarrow> string" where
  "type_name v =
     (case v of
        PNone \<Rightarrow> ''NoneType''
      | PStr s \<Rightarrow> ''str''
      | PInt n \<Rightarrow> ''int''
      | PList xs \<Rightarrow> ''list''
      | PDict d \<Rightarrow> ''dict''
      | PEnum s \<Rightarrow> ''WorkflowState''
      | PMsg c \<Rightarrow> ''HumanMessage'')"

definition quoted :: "string \<Rightarrow> string" where
  "quoted s = [CHR 0x27] @ s @ [CHR 0x27]"

text \<open>
  \<^verbatim>\<open>repr(s)\<close> of a string, the characters being the code points 0 to 255. The
  quote is the double quote when the string holds a single quote and no double quote,
  and the single quote otherwise. The quote and the backslash are escaped with a
  backslash; tab, newline and carriage return have their letters; the other characters
  that are not printable (below 32, 127 to 160, and 173) are written
  \<^verbatim>\<open>\xhh\<close> in lower-case hexadecimal.
\<close>

definition hex_digit :: "nat \<Rightarrow> char" where
  "hex_digit n = ''0123456789abcdef'' ! (n mod 16)"

definition repr_char :: "char \<Rightarrow> char \<Rightarrow> string" where
  "repr_char quote c =
     (let n = (of_char c :: nat) in
      if c = quote \<or> c = CHR 0x5C then [CHR 0x5C, c]
      else if c = CHR 0x09 then [CHR 0x5C, CHR ''t'']
      else if c = CHR 0x0A then [CHR 0x5C, CHR ''n'']
      else if c = CHR 0x0D then [CHR 0x5C, CHR ''r'']
      else if n < 32 \<or> (127 \<le> n \<and> n \<le> 160) \<or> n = 173
        then [CHR 0x5C, CHR ''x'', hex_digit (n div 16), hex_digit n]
      else [c])"

definition py_repr :: "string \<Rightarrow> string" where
  "py_repr s =
     (let quote = (if CHR 0x27 \<in> set s \<and> CHR 0x22 \<notin> set s then CHR 0x22 else CHR 0x27)
      in [quote] @ concat (map (repr_char quote) s) @ [quote])"

text \<open>
  \<^verbatim>\<open>str(e)\<close>: a \<^verbatim>\<open>KeyError\<close> with one argument prints the repr of the
  argument.
\<close>

definition str_exn :: "exn \<Rightarrow> string" where
  "str_exn e =
     (case e of
        KeyError k \<Rightarrow> py_repr k
      | TypeError m \<Rightarrow> m
      | AttributeError m \<Rightarrow> m
      | ValueError m \<Rightarrow> m
      | OSError m \<Rightarrow> m
      | Raised m \<Rightarrow> m)"

text \<open>Sequencing of computations that may raise: the first exception wins.\<close>

definition bind_exn :: "exn + 'a \<Rightarrow> ('a \<Rightarrow> exn + 'b) \<Rightarrow> exn + 'b" where
  "bind_exn m f = (case m of Inl e \<Rightarrow> Inl e | Inr x \<Rightarrow> f x)"

text \<open>\<^verbatim>\<open>d[k]\<close> raises \<^verbatim>\<open>KeyError\<close> when the key is absent.\<close>

definition getitem :: "pydict \<Rightarrow> string \<Rightarrow> exn + pyval" where
  "getitem d k = (case map_of d k of None \<Rightarrow> Inl (KeyError k) | Some v \<Rightarrow> Inr v)"

text \<open>
  \<^verbatim>\<open>d.get(k, default)\<close> gives the default only when the key is absent: a key
  that is present with the value \<^verbatim>\<open>None\<close> gives \<^verbatim>\<open>None\<close>.
  \<^verbatim>\<open>d.get(k)\<close> is \<open>get d k PNone\<close>.
\<close>

definition get :: "pydict \<Rightarrow> string \<Rightarrow> pyval \<Rightarrow> pyval" where
  "get d k dflt = (case map_of d k of None \<Rightarrow> dflt | Some v \<Rightarrow> v)"

text \<open>\<^verbatim>\<open>len(v)\<close> raises \<^verbatim>\<open>TypeError\<close> on a value that is not sized.\<close>

definition py_len :: "pyval \<Rightarrow> exn + int" where
  "py_len v =
     (case v of
        PStr s \<Rightarrow> Inr (int (length s))
      | PList xs \<Rightarrow> Inr (int (length xs))
      | PDict d \<Rightarrow> Inr (int (length (remdups (map fst d))))
      | _ \<Rightarrow> Inl (TypeError (''object of type '' @ quoted (type_name v) @ '' has no len()'')))"

text \<open>Truth value of a Python value, as \<^verbatim>\<open>if\<close> tests it.\<close>

definition truthy :: "pyval \<Rightarrow> bool" where
  "truthy v =
     (case v of
        PNone \<Rightarrow> False
      | PStr s \<Rightarrow> s \<noteq> []
      | PInt n \<Rightarrow> n \<noteq> 0
      | PList xs \<Rightarrow> xs \<noteq> []
      | PDict d \<Rightarrow> d \<noteq> []
      | PEnum s \<Rightarrow> True
      | PMsg c \<Rightarrow> True)"

text \<open>
  \<^verbatim>\<open>v.value\<close>: defined on members of the enum only. What the members' values are
  is declared in the absent \<^verbatim>\<open>agents/workflow.py\<close>, so the function
  \<open>value_of\<close> from members to values is a parameter.
\<close>

definition attr_value :: "(WorkflowState \<Rightarrow> pyval) \<Rightarrow> pyval \<Rightarrow> exn + pyval" where
  "attr_value value_of v =
     (case v of
        PEnum s \<Rightarrow> Inr (value_of s)
      | _ \<Rightarrow> Inl (AttributeError
                 (quoted (type_name v) @ '' object has no attribute '' @ quoted ''value'')))"

section \<open>\<^verbatim>\<open>OrchestratorApp.process_repository\<close> (agents/orchestrator_app.py)\<close>

text \<open>The dictionary literal of lines 61 to 74.\<close>

definition initial_state :: "string \<Rightarrow> pydict" where
  "initial_state repo_url =
     [(''repo_url'', PStr repo_url),
      (''repo_path'', PNone),
      (''branch_name'', PNone),
      (''current_state'', PEnum INITIALIZE),
      (''messages'', PList [PMsg (''Analyze repository: '' @ repo_url)]),
      (''error_message'', PNone),
      (''vulnerabilities'', PList []),
      (''research_results'', PDict []),
      (''fixes'', PList []),
      (''reviewed_fixes'', PList []),
      (''pull_request_url'', PNone),
      (''summary_report'', PNone)]"

text \<open>
  Lines 80 to 108: the interpretation of the final state. The entries of each returned
  dictionary are evaluated in the order of the source, so the first failing one decides
  the exception. The source reads \<^verbatim>\<open>final_state["current_state"]\<close> again at
  line 87; the dictionary is not changed in between, so the model reads it once.
\<close>

definition process_results :: "(WorkflowState \<Rightarrow> pyval) \<Rightarrow> pydict \<Rightarrow> exn + pydict" where
  "process_results value_of final_state =
     bind_exn (getitem final_state ''current_state'') (\<lambda>cs.
       if cs = PEnum ERROR then
         Inr [(''status'', PStr ''error''),
              (''error'', get final_state ''error_message'' (PStr ''Unknown error occurred'')),
              (''fixes_applied'', PInt 0)]
       else if cs = PEnum COMPLETE then
         bind_exn (py_len (get final_state ''reviewed_fixes'' (PList []))) (\<lambda>fixes_applied.
         bind_exn (py_len (get final_state ''vulnerabilities'' (PList []))) (\<lambda>vulnerabilities_found.
         bind_exn (attr_value value_of cs) (\<lambda>workflow_state.
           Inr [(''status'', PStr ''success''),
                (''fixes_applied'', PInt fixes_applied),
                (''vulnerabilities_found'', PInt vulnerabilities_found),
                (''pull_request'',
                   PDict [(''url'', get final_state ''pull_request_url'' PNone),
                          (''status'',
                             if truthy (get final_state ''pull_request_url'' PNone)
                             then PStr ''created'' else PStr ''not_created'')]),
                (''summary_report'', get final_state ''summary_report'' PNone),
                (''workflow_state'', workflow_state)])))
       else
         bind_exn (py_len (get final_state ''reviewed_fixes'' (PList []))) (\<lambda>fixes_applied.
         bind_exn (py_len (get final_state ''vulnerabilities'' (PList []))) (\<lambda>vulnerabilities_found.
         bind_exn (attr_value value_of cs) (\<lambda>final_state_value.
           Inr [(''status'', PStr ''incomplete''),
                (''fixes_applied'', PInt fixes_applied),
                (''vulnerabilities_found'', PInt vulnerabilities_found),
                (''final_state'', final_state_value),
                (''message'', PStr ''Workflow did not complete all steps'')]))))"

text \<open>
  The method, for a workflow that returns or raises a subclass of
  \<^verbatim>\<open>Exception\<close>; it then always returns a dictionary. The workflow compiled by
  \<^verbatim>\<open>create_aegis_workflow\<close> is not among the sources: \<open>invoke\<close> stands for
  \<^verbatim>\<open>self.workflow.invoke\<close>, which returns a final state or raises. Every such
  exception of the \<^verbatim>\<open>try\<close> block is caught at line 110. Logging is left out.
\<close>

definition process_repository ::
    "(WorkflowState \<Rightarrow> pyval) \<Rightarrow> (pydict \<Rightarrow> exn + pydict) \<Rightarrow> string \<Rightarrow> pydict" where
  "process_repository value_of invoke repo_url =
     (case bind_exn (invoke (initial_state repo_url)) (process_results value_of) of
        Inr result \<Rightarrow> result
      | Inl e \<Rightarrow>
          [(''status'', PStr ''error''),
           (''error'', PStr (''Workflow execution failed: '' @ str_exn e)),
           (''fixes_applied'', PInt 0)])"

text \<open>The handler of lines 110 to 116.\<close>

definition except_Exception :: "exn \<Rightarrow> pydict" where
  "except_Exception e =
     [(''status'', PStr ''error''),
      (''error'', PStr (''Workflow execution failed: '' @ str_exn e)),
      (''fixes_applied'', PInt 0)]"

text \<open>
  The method with every exception the workflow can raise, lines 57 to 116. The clause
  at line 110 is \<^verbatim>\<open>except Exception\<close>: an exception of the workflow that is not
  a subclass of \<^verbatim>\<open>Exception\<close> leaves the method, and no dictionary is returned.
  The operations of lines 80 to 108 raise subclasses of \<^verbatim>\<open>Exception\<close> only.
\<close>

definition OrchestratorApp_process_repository ::
    "(WorkflowState \<Rightarrow> pyval) \<Rightarrow> (pydict \<Rightarrow> (base_exn + exn) + pydict) \<Rightarrow> string
       \<Rightarrow> base_exn + pydict" where
  "OrchestratorApp_process_repository value_of invoke repo_url =
     (case invoke (initial_state repo_url) of
        Inl (Inl b) \<Rightarrow> Inl b
      | Inl (Inr e) \<Rightarrow> Inr (except_Exception e)
      | Inr final_state \<Rightarrow>
          (case process_results value_of final_state of
             Inl e \<Rightarrow> Inr (except_Exception e)
           | Inr result \<Rightarrow> Inr result))"

text \<open>A workflow that raises subclasses of \<^verbatim>\<open>Exception\<close> only.\<close>

definition raising_Exceptions ::
    "(pydict \<Rightarrow> exn + pydict) \<Rightarrow> pydict \<Rightarrow> (base_exn + exn) + pydict" where
  "raising_Exceptions invoke s = (case invoke s of Inl e \<Rightarrow> Inl (Inr e) | Inr fs \<Rightarrow> Inr fs)"

section \<open>The exit code of \<^verbatim>\<open>main\<close> (main.py)\<close>

text \<open>Lines 123 to 128.\<close>

definition exit_code :: "pydict \<Rightarrow> exn + int" where
  "exit_code result =
     bind_exn (getitem result ''status'') (\<lambda>status.
       if status = PStr ''success'' then Inr 0
       else if status = PStr ''error'' then Inr 1
       else Inr 2)"

text \<open>
  The \<^verbatim>\<open>except\<close> clauses of \<^verbatim>\<open>main\<close>, lines 130 to 135: a
  \<^verbatim>\<open>KeyboardInterrupt\<close> gives 130, a \<^verbatim>\<open>ValueError\<close>,
  \<^verbatim>\<open>ConnectionError\<close> or \<^verbatim>\<open>OSError\<close> gives 1, and every other exception
  leaves \<^verbatim>\<open>main\<close>.
\<close>

definition main_except :: "base_exn + exn \<Rightarrow> (base_exn + exn) + int" where
  "main_except x =
     (case x of
        Inl KeyboardInterrupt \<Rightarrow> Inr 130
      | Inr (ValueError m) \<Rightarrow> Inr 1
      | Inr (OSError m) \<Rightarrow> Inr 1
      | _ \<Rightarrow> Inl x)"

text \<open>
  Lines 114 to 135 of \<^verbatim>\<open>main\<close>, for an invocation that is not in server mode, has
  a repository URL and does not list the vulnerability types: the repository is
  processed, the result is printed, and the exit code is computed from the result, all
  inside the \<^verbatim>\<open>try\<close> block of \<^verbatim>\<open>main\<close>. \<^verbatim>\<open>print_results\<close> writes
  to the standard output; what it raises there, if anything, depends on the output stream
  and is the parameter \<open>print_results\<close> (\<open>None\<close> when it returns).
  \<^verbatim>\<open>cleanup\<close> writes a log line only.
\<close>

definition main_process ::
    "(WorkflowState \<Rightarrow> pyval) \<Rightarrow> (pydict \<Rightarrow> (base_exn + exn) + pydict) \<Rightarrow>
     (pydict \<Rightarrow> (base_exn + exn) option) \<Rightarrow> string \<Rightarrow> (base_exn + exn) + int" where
  "main_process value_of invoke print_results repo_url =
     (case OrchestratorApp_process_repository value_of invoke repo_url of
        Inl b \<Rightarrow> main_except (Inl b)
      | Inr result \<Rightarrow>
          (case print_results result of
             Some x \<Rightarrow> main_except x
           | None \<Rightarrow>
               (case exit_code result of
                  Inl e \<Rightarrow> main_except (Inr e)
                | Inr code \<Rightarrow> Inr code)))"

section \<open>Records of the workflow\<close>

text \<open>
  Modelled from the spec: the type \<^verbatim>\<open>AegisState\<close> is declared in the absent
  \<^verbatim>\<open>agents/workflow.py\<close>. A terminal record has a stage in
  \<^verbatim>\<open>current_state\<close>, and its \<^verbatim>\<open>vulnerabilities\<close> and
  \<^verbatim>\<open>reviewed_fixes\<close> are sequences (spec, section 3). A key that is absent is
  allowed: the source reads these two with a default.
\<close>

definition is_sequence_field :: "pydict \<Rightarrow> string \<Rightarrow> bool" where
  "is_sequence_field d k =
     (case map_of d k of None \<Rightarrow> True | Some (PList xs) \<Rightarrow> True | Some _ \<Rightarrow> False)"

definition current_stage :: "pydict \<Rightarrow> WorkflowState option" where
  "current_stage d = (case map_of d ''current_state'' of Some (PEnum s) \<Rightarrow> Some s | _ \<Rightarrow> None)"

definition terminal_record :: "pydict \<Rightarrow> bool" where
  "terminal_record d \<longleftrightarrow>
     current_stage d \<noteq> None \<and>
     is_sequence_field d ''vulnerabilities'' \<and>
     is_sequence_field d ''reviewed_fixes''"

text \<open>
  Modelled from the spec: the values of the enum's members are not among the sources.
  This function gives each member its name in the spec; it instantiates \<open>value_of\<close>
  where a concrete run is evaluated.
\<close>

definition stage_name :: "WorkflowState \<Rightarrow> pyval" where
  "stage_name s =
     PStr (case s of
        INITIALIZE \<Rightarrow> ''INITIALIZE'' | SCAN \<Rightarrow> ''SCAN'' | RESEARCH \<Rightarrow> ''RESEARCH''
      | FIX \<Rightarrow> ''FIX'' | REVIEW \<Rightarrow> ''REVIEW'' | PUBLISH \<Rightarrow> ''PUBLISH''
      | SUMMARIZE \<Rightarrow> ''SUMMARIZE'' | COMPLETE \<Rightarrow> ''COMPLETE'' | ERROR \<Rightarrow> ''ERROR'')"

section \<open>Example runs\<close>

text \<open>
  A node of the workflow writes fields of the state, as \<^verbatim>\<open>dict.update\<close> does.
  The workflows below stand for \<^verbatim>\<open>self.workflow.invoke\<close> in concrete runs.
\<close>

definition update_items :: "pydict \<Rightarrow> pydict \<Rightarrow> pydict" where
  "update_items d kvs = foldl (\<lambda>acc (k, v). AList.update k v acc) d kvs"

definition example_url :: string where
  "example_url = ''https://example.org/r.git''"

text \<open>A stage moves to ERROR and sets no message.\<close>

definition final_silent_error :: "pydict \<Rightarrow> pydict" where
  "final_silent_error s = update_items s [(''current_state'', PEnum ERROR)]"

definition workflow_silent_error :: "pydict \<Rightarrow> exn + pydict" where
  "workflow_silent_error s = Inr (final_silent_error s)"

text \<open>The clone fails at the first stage.\<close>

definition final_clone_failure :: "pydict \<Rightarrow> pydict" where
  "final_clone_failure s =
     update_items s
       [(''current_state'', PEnum ERROR),
        (''error_message'', PStr ''Failed to clone repository'')]"

definition workflow_clone_failure :: "pydict \<Rightarrow> exn + pydict" where
  "workflow_clone_failure s = Inr (final_clone_failure s)"

text \<open>Three findings, two fixes, one of them accepted, then the publication fails.\<close>

definition final_publish_failure :: "pydict \<Rightarrow> pydict" where
  "final_publish_failure s =
     update_items s
       [(''repo_path'', PStr ''/tmp/repo''),
        (''vulnerabilities'', PList [PStr ''V1'', PStr ''V2'', PStr ''V3'']),
        (''fixes'', PList [PStr ''F1'', PStr ''F2'']),
        (''reviewed_fixes'', PList [PStr ''F1'']),
        (''current_state'', PEnum ERROR),
        (''error_message'', PStr ''Publisher timed out'')]"

definition workflow_publish_failure :: "pydict \<Rightarrow> exn + pydict" where
  "workflow_publish_failure s = Inr (final_publish_failure s)"

text \<open>The same run, with the publication succeeding.\<close>

definition final_complete :: "pydict \<Rightarrow> pydict" where
  "final_complete s =
     update_items s
       [(''repo_path'', PStr ''/tmp/repo''),
        (''vulnerabilities'', PList [PStr ''V1'', PStr ''V2'', PStr ''V3'']),
        (''fixes'', PList [PStr ''F1'', PStr ''F2'']),
        (''reviewed_fixes'', PList [PStr ''F1'']),
        (''branch_name'', PStr ''aegis-fixes''),
        (''pull_request_url'', PStr ''https://example.org/pull/1''),
        (''summary_report'', PStr ''1 of 3 fixed''),
        (''current_state'', PEnum COMPLETE)]"

definition workflow_complete :: "pydict \<Rightarrow> exn + pydict" where
  "workflow_complete s = Inr (final_complete s)"

text \<open>The engine returns after the scan, at neither COMPLETE nor ERROR.\<close>

definition final_stopped_at_scan :: "pydict \<Rightarrow> pydict" where
  "final_stopped_at_scan s =
     update_items s
       [(''repo_path'', PStr ''/tmp/repo''),
        (''vulnerabilities'', PList [PStr ''V1'', PStr ''V2'']),
        (''current_state'', PEnum SCAN)]"

definition workflow_stops_at_scan :: "pydict \<Rightarrow> exn + pydict" where
  "workflow_stops_at_scan s = Inr (final_stopped_at_scan s)"




text \<open>The standard output accepts everything; the standard output is a closed pipe.\<close>

definition print_succeeds :: "pydict \<Rightarrow> (base_exn + exn) option" where
  "print_succeeds result = None"

definition print_broken_pipe :: "pydict \<Rightarrow> (base_exn + exn) option" where
  "print_broken_pipe result = Some (Inr (OSError ''[Errno 32] Broken pipe''))"

section \<open>Basic facts\<close>

lemma current_stage_Some:
  "current_stage d = Some s \<longleftrightarrow> map_of d ''current_state'' = Some (PEnum s)"
  by (auto simp: current_stage_def split: option.splits pyval.splits)

lemma sequence_field_get:
  "is_sequence_field d k \<Longrightarrow> \<exists>xs. get d k (PList []) = PList xs"
  by (auto simp: is_sequence_field_def get_def split: option.splits pyval.splits)

lemma process_repository_raised:
  "invoke (initial_state repo_url) = Inl e \<Longrightarrow>
   process_repository value_of invoke repo_url =
     [(''status'', PStr ''error''),
      (''error'', PStr (''Workflow execution failed: '' @ str_exn e)),
      (''fixes_applied'', PInt 0)]"
  by (simp add: process_repository_def bind_exn_def)

lemma process_results_ERROR:
  "map_of fs ''current_state'' = Some (PEnum ERROR) \<Longrightarrow>
   process_results value_of fs =
     Inr [(''status'', PStr ''error''),
          (''error'', get fs ''error_message'' (PStr ''Unknown error occurred'')),
          (''fixes_applied'', PInt 0)]"
  by (simp add: process_results_def bind_exn_def getitem_def)

lemma process_results_COMPLETE:
  assumes "map_of fs ''current_state'' = Some (PEnum COMPLETE)"
    and "get fs ''reviewed_fixes'' (PList []) = PList rf"
    and "get fs ''vulnerabilities'' (PList []) = PList vs"
  shows "process_results value_of fs =
     Inr [(''status'', PStr ''success''),
          (''fixes_applied'', PInt (int (length rf))),
          (''vulnerabilities_found'', PInt (int (length vs))),
          (''pull_request'',
             PDict [(''url'', get fs ''pull_request_url'' PNone),
                    (''status'',
                       if truthy (get fs ''pull_request_url'' PNone)
                       then PStr ''created'' else PStr ''not_created'')]),
          (''summary_report'', get fs ''summary_report'' PNone),
          (''workflow_state'', value_of COMPLETE)]"
  using assms
  by (simp add: process_results_def bind_exn_def getitem_def py_len_def attr_value_def)

lemma process_results_other:
  assumes "map_of fs ''current_state'' = Some (PEnum st)"
    and "st \<noteq> ERROR" and "st \<noteq> COMPLETE"
    and "get fs ''reviewed_fixes'' (PList []) = PList rf"
    and "get fs ''vulnerabilities'' (PList []) = PList vs"
  shows "process_results value_of fs =
     Inr [(''status'', PStr ''incomplete''),
          (''fixes_applied'', PInt (int (length rf))),
          (''vulnerabilities_found'', PInt (int (length vs))),
          (''final_state'', value_of st),
          (''message'', PStr ''Workflow did not complete all steps'')]"
  using assms
  by (simp add: process_results_def bind_exn_def getitem_def py_len_def attr_value_def)

text \<open>Whatever the workflow does, the returned dictionary has one of three statuses.\<close>

lemma process_results_status:
  "process_results value_of fs = Inr r \<Longrightarrow>
   map_of r ''status'' \<in>
     {Some (PStr ''success''), Some (PStr ''error''), Some (PStr ''incomplete'')}"
  by (auto simp: process_results_def bind_exn_def split: sum.splits if_splits)

lemma process_repository_status:
  "map_of (process_repository value_of invoke repo_url) ''status'' \<in>
     {Some (PStr ''success''), Some (PStr ''error''), Some (PStr ''incomplete'')}"
proof (cases "bind_exn (invoke (initial_state repo_url)) (process_results value_of)")
  case (Inl e)
  then show ?thesis by (simp add: process_repository_def)
next
  case (Inr r)
  then obtain fs where "process_results value_of fs = Inr r"
    by (auto simp: bind_exn_def split: sum.splits)
  from process_results_status [OF this] Inr show ?thesis
    by (simp add: process_repository_def)
qed

text \<open>When the stored error message is absent, the default message is reported.\<close>

lemma error_message_absent:
  "map_of fs ''current_state'' = Some (PEnum ERROR) \<Longrightarrow> map_of fs ''error_message'' = None \<Longrightarrow>
   process_results value_of fs =
     Inr [(''status'', PStr ''error''),
          (''error'', PStr ''Unknown error occurred''),
          (''fixes_applied'', PInt 0)]"
  by (simp add: process_results_ERROR get_def)

lemma exit_code_status:
  assumes "map_of result ''status'' = Some s"
  shows "exit_code result =
     Inr (if s = PStr ''success'' then 0 else if s = PStr ''error'' then 1 else 2)"
  using assms by (simp add: exit_code_def bind_exn_def getitem_def)

text \<open>
  On a workflow that raises subclasses of \<^verbatim>\<open>Exception\<close> only, the method
  returns the dictionary given by \<open>process_repository\<close>.
\<close>

lemma OrchestratorApp_process_repository_Exceptions:
  "OrchestratorApp_process_repository value_of (raising_Exceptions invoke) repo_url =
     Inr (process_repository value_of invoke repo_url)"
  by (simp add: OrchestratorApp_process_repository_def raising_Exceptions_def
        process_repository_def except_Exception_def bind_exn_def split: sum.splits)

lemma OrchestratorApp_process_repository_status:
  assumes "OrchestratorApp_process_repository value_of invoke repo_url = Inr result"
  shows "map_of result ''status'' \<in>
     {Some (PStr ''success''), Some (PStr ''error''), Some (PStr ''incomplete'')}"
proof (cases "invoke (initial_state repo_url)")
  case (Inl x)
  with assms show ?thesis
    by (cases x) (auto simp: OrchestratorApp_process_repository_def except_Exception_def)
next
  case (Inr fs)
  show ?thesis
  proof (cases "process_results value_of fs")
    case (Inl e)
    with Inr assms show ?thesis
      by (auto simp: OrchestratorApp_process_repository_def except_Exception_def)
  next
    case r: (Inr r)
    with Inr assms have "r = result"
      by (simp add: OrchestratorApp_process_repository_def)
    with process_results_status [OF r] show ?thesis by simp
  qed
qed

text \<open>An interrupt of the workflow leaves the method and ends \<^verbatim>\<open>main\<close> with 130.\<close>

lemma main_process_interrupted:
  "invoke (initial_state repo_url) = Inl (Inl KeyboardInterrupt) \<Longrightarrow>
   main_process value_of invoke print_results repo_url = Inr 130"
  by (simp add: main_process_def OrchestratorApp_process_repository_def main_except_def)

section \<open>The outcome of a run\<close>

text \<open>
  C1. The interpretation of the result is total and three-way. Whatever the workflow
  does, the returned dictionary has exactly one of the statuses success, error and
  incomplete. When the workflow returns a terminal record at stage \<open>st\<close>, the status is
  error exactly when \<open>st\<close> is ERROR, success exactly when \<open>st\<close> is COMPLETE, and
  incomplete exactly when \<open>st\<close> is neither.
\<close>

theorem outcome_total_exclusive:
  "map_of (process_repository value_of invoke repo_url) ''status'' \<in>
     {Some (PStr ''success''), Some (PStr ''error''), Some (PStr ''incomplete'')} \<and>
   (invoke (initial_state repo_url) = Inr fs \<and> terminal_record fs \<and>
    current_stage fs = Some st \<longrightarrow>
      ((map_of (process_repository value_of invoke repo_url) ''status'' = Some (PStr ''error''))
          = (st = ERROR)) \<and>
      ((map_of (process_repository value_of invoke repo_url) ''status'' = Some (PStr ''success''))
          = (st = COMPLETE)) \<and>
      ((map_of (process_repository value_of invoke repo_url) ''status'' = Some (PStr ''incomplete''))
          = (st \<noteq> ERROR \<and> st \<noteq> COMPLETE)))"
proof (intro conjI impI)
  show "map_of (process_repository value_of invoke repo_url) ''status'' \<in>
     {Some (PStr ''success''), Some (PStr ''error''), Some (PStr ''incomplete'')}"
    by (rule process_repository_status)
next
  assume a: "invoke (initial_state repo_url) = Inr fs \<and> terminal_record fs \<and>
    current_stage fs = Some st"
  then have cs: "map_of fs ''current_state'' = Some (PEnum st)"
    by (simp add: current_stage_Some)
  from a obtain rf vs where
    rf: "get fs ''reviewed_fixes'' (PList []) = PList rf" and
    vs: "get fs ''vulnerabilities'' (PList []) = PList vs"
    unfolding terminal_record_def using sequence_field_get by blast
  let ?r = "process_repository value_of invoke repo_url"
  have "map_of ?r ''status'' =
      Some (PStr (if st = ERROR then ''error''
                  else if st = COMPLETE then ''success'' else ''incomplete''))"
  proof (cases "st = ERROR")
    case True
    with cs have "map_of fs ''current_state'' = Some (PEnum ERROR)" by simp
    from process_results_ERROR [OF this, of value_of] a True show ?thesis
      by (simp add: process_repository_def bind_exn_def)
  next
    case nerr: False
    show ?thesis
    proof (cases "st = COMPLETE")
      case True
      with cs have "map_of fs ''current_state'' = Some (PEnum COMPLETE)" by simp
      from process_results_COMPLETE [OF this rf vs, of value_of] a True show ?thesis
        by (simp add: process_repository_def bind_exn_def)
    next
      case False
      from process_results_other [OF cs nerr False rf vs, of value_of] a nerr False
      show ?thesis
        by (simp add: process_repository_def bind_exn_def)
    qed
  qed
  then show
    "(map_of ?r ''status'' = Some (PStr ''error'')) = (st = ERROR)"
    "(map_of ?r ''status'' = Some (PStr ''success'')) = (st = COMPLETE)"
    "(map_of ?r ''status'' = Some (PStr ''incomplete'')) = (st \<noteq> ERROR \<and> st \<noteq> COMPLETE)"
    by simp_all
qed

theorem outcome_total_exclusive_witness:
  "workflow_complete (initial_state example_url) = Inr (final_complete (initial_state example_url)) \<and>
   terminal_record (final_complete (initial_state example_url)) \<and>
   current_stage (final_complete (initial_state example_url)) = Some COMPLETE \<and>
   map_of (process_repository stage_name workflow_complete example_url) ''status''
     = Some (PStr ''success'') \<and>
   map_of (process_repository stage_name workflow_complete example_url) ''status''
     \<noteq> Some (PStr ''error'') \<and>
   map_of (process_repository stage_name workflow_complete example_url) ''status''
     \<noteq> Some (PStr ''incomplete'')"
proof -
  have h: "workflow_complete (initial_state example_url)
             = Inr (final_complete (initial_state example_url)) \<and>
           terminal_record (final_complete (initial_state example_url)) \<and>
           current_stage (final_complete (initial_state example_url)) = Some COMPLETE"
    by (simp add:
          example_url_def update_items_def initial_state_def final_complete_def
          workflow_complete_def terminal_record_def current_stage_def is_sequence_field_def)
  with outcome_total_exclusive [of stage_name workflow_complete example_url
      "final_complete (initial_state example_url)" COMPLETE]
  show ?thesis by simp
qed

text \<open>
  C2. When the workflow returns a record at stage COMPLETE whose reviewed fixes are the
  sequence \<open>rf\<close> and whose vulnerabilities are the sequence \<open>vs\<close>, the result has status
  success, \<open>fixes_applied\<close> is the length of \<open>rf\<close>, \<open>vulnerabilities_found\<close> is the length of
  \<open>vs\<close>, and the result carries the record's pull request URL and summary report.
\<close>

theorem complete_gives_success:
  assumes "invoke (initial_state repo_url) = Inr fs"
    and "map_of fs ''current_state'' = Some (PEnum COMPLETE)"
    and "get fs ''reviewed_fixes'' (PList []) = PList rf"
    and "get fs ''vulnerabilities'' (PList []) = PList vs"
  shows "map_of (process_repository value_of invoke repo_url) ''status''
           = Some (PStr ''success'') \<and>
         map_of (process_repository value_of invoke repo_url) ''fixes_applied''
           = Some (PInt (int (length rf))) \<and>
         map_of (process_repository value_of invoke repo_url) ''vulnerabilities_found''
           = Some (PInt (int (length vs))) \<and>
         map_of (process_repository value_of invoke repo_url) ''pull_request''
           = Some (PDict [(''url'', get fs ''pull_request_url'' PNone),
                          (''status'',
                             if truthy (get fs ''pull_request_url'' PNone)
                             then PStr ''created'' else PStr ''not_created'')]) \<and>
         map_of (process_repository value_of invoke repo_url) ''summary_report''
           = Some (get fs ''summary_report'' PNone)"
  using assms(1) process_results_COMPLETE [OF assms(2-4), of value_of]
  by (simp add: process_repository_def bind_exn_def)

theorem complete_gives_success_witness:
  "map_of (final_complete (initial_state example_url)) ''current_state'' = Some (PEnum COMPLETE) \<and>
   map_of (process_repository stage_name workflow_complete example_url) ''status''
     = Some (PStr ''success'') \<and>
   map_of (process_repository stage_name workflow_complete example_url) ''fixes_applied''
     = Some (PInt 1) \<and>
   map_of (process_repository stage_name workflow_complete example_url) ''vulnerabilities_found''
     = Some (PInt 3) \<and>
   map_of (process_repository stage_name workflow_complete example_url) ''pull_request''
     = Some (PDict [(''url'', PStr ''https://example.org/pull/1''),
                    (''status'', PStr ''created'')]) \<and>
   map_of (process_repository stage_name workflow_complete example_url) ''summary_report''
     = Some (PStr ''1 of 3 fixed'')"
proof -
  have h1: "workflow_complete (initial_state example_url)
              = Inr (final_complete (initial_state example_url))"
    by (simp add: workflow_complete_def)
  have h2: "map_of (final_complete (initial_state example_url)) ''current_state''
              = Some (PEnum COMPLETE)"
    by (simp add:
          example_url_def update_items_def initial_state_def final_complete_def
          workflow_complete_def)
  have h3: "get (final_complete (initial_state example_url)) ''reviewed_fixes'' (PList [])
              = PList [PStr ''F1'']"
    by (simp add:
          example_url_def update_items_def initial_state_def final_complete_def
          workflow_complete_def get_def)
  have h4: "get (final_complete (initial_state example_url)) ''vulnerabilities'' (PList [])
              = PList [PStr ''V1'', PStr ''V2'', PStr ''V3'']"
    by (simp add:
          example_url_def update_items_def initial_state_def final_complete_def
          workflow_complete_def get_def)
  have h5: "get (final_complete (initial_state example_url)) ''pull_request_url'' PNone
              = PStr ''https://example.org/pull/1''"
    by (simp add:
          example_url_def update_items_def initial_state_def final_complete_def
          workflow_complete_def get_def)
  have h6: "get (final_complete (initial_state example_url)) ''summary_report'' PNone
              = PStr ''1 of 3 fixed''"
    by (simp add:
          example_url_def update_items_def initial_state_def final_complete_def
          workflow_complete_def get_def)
  from complete_gives_success [where invoke = workflow_complete and value_of = stage_name,
      OF h1 h2 h3 h4] h2 h5 h6
  show ?thesis by (simp add: truthy_def)
qed

text \<open>
  C3. A record at stage ERROR should give status error with a non-empty message, also
  when the record's \<^verbatim>\<open>error_message\<close> is \<^verbatim>\<open>None\<close>. The source gives the
  default message only when the key is absent: the initial state binds the key to
  \<^verbatim>\<open>None\<close>, so a stage that moves to ERROR and sets no message leaves
  \<^verbatim>\<open>None\<close> there, and the result carries \<^verbatim>\<open>None\<close> as its error.
\<close>

theorem error_message_None_is_reported:
  "current_stage (final_silent_error (initial_state example_url)) = Some ERROR \<and>
   map_of (final_silent_error (initial_state example_url)) ''error_message'' = Some PNone \<and>
   process_repository stage_name workflow_silent_error example_url =
     [(''status'', PStr ''error''), (''error'', PNone), (''fixes_applied'', PInt 0)]"
  by (simp add:
        example_url_def update_items_def initial_state_def final_silent_error_def
        workflow_silent_error_def process_repository_def process_results_def bind_exn_def
        getitem_def get_def py_len_def attr_value_def truthy_def stage_name_def
        terminal_record_def current_stage_def is_sequence_field_def)

section \<open>The incomplete outcome\<close>

text \<open>
  C4, as the spec words it, fails: the message of an incomplete result is not
  "pipeline did not complete all stages".
\<close>

theorem incomplete_message_counterexample:
  "workflow_stops_at_scan (initial_state example_url)
     = Inr (final_stopped_at_scan (initial_state example_url)) \<and>
   terminal_record (final_stopped_at_scan (initial_state example_url)) \<and>
   current_stage (final_stopped_at_scan (initial_state example_url)) = Some SCAN \<and>
   map_of (process_repository stage_name workflow_stops_at_scan example_url) ''message''
     \<noteq> Some (PStr ''pipeline did not complete all stages'')"
  by (simp add:
        example_url_def update_items_def initial_state_def final_stopped_at_scan_def
        workflow_stops_at_scan_def process_repository_def process_results_def bind_exn_def
        getitem_def get_def py_len_def attr_value_def truthy_def stage_name_def
        terminal_record_def current_stage_def is_sequence_field_def)

text \<open>
  C4, amended. When the workflow returns a terminal record at a stage \<open>st\<close> that is
  neither COMPLETE nor ERROR, the result has status incomplete, carries the value of
  \<open>st\<close> as \<^verbatim>\<open>final_state\<close>, and the message "Workflow did not complete all steps".
\<close>

theorem other_stage_gives_incomplete:
  assumes "invoke (initial_state repo_url) = Inr fs"
    and "terminal_record fs"
    and "current_stage fs = Some st"
    and "st \<noteq> COMPLETE" and "st \<noteq> ERROR"
  shows "map_of (process_repository value_of invoke repo_url) ''status''
           = Some (PStr ''incomplete'') \<and>
         map_of (process_repository value_of invoke repo_url) ''final_state''
           = Some (value_of st) \<and>
         map_of (process_repository value_of invoke repo_url) ''message''
           = Some (PStr ''Workflow did not complete all steps'')"
proof -
  from assms(3) have cs: "map_of fs ''current_state'' = Some (PEnum st)"
    by (simp add: current_stage_Some)
  from assms(2) obtain rf vs where
    rf: "get fs ''reviewed_fixes'' (PList []) = PList rf" and
    vs: "get fs ''vulnerabilities'' (PList []) = PList vs"
    unfolding terminal_record_def using sequence_field_get by blast
  from process_results_other [OF cs assms(5) assms(4) rf vs, of value_of] assms(1)
  show ?thesis
    by (simp add: process_repository_def bind_exn_def)
qed

theorem other_stage_gives_incomplete_witness:
  "map_of (process_repository stage_name workflow_stops_at_scan example_url) ''status''
     = Some (PStr ''incomplete'') \<and>
   map_of (process_repository stage_name workflow_stops_at_scan example_url) ''final_state''
     = Some (PStr ''SCAN'') \<and>
   map_of (process_repository stage_name workflow_stops_at_scan example_url) ''message''
     = Some (PStr ''Workflow did not complete all steps'')"
proof -
  have h1: "workflow_stops_at_scan (initial_state example_url)
              = Inr (final_stopped_at_scan (initial_state example_url))"
    by (simp add: workflow_stops_at_scan_def)
  have h2: "terminal_record (final_stopped_at_scan (initial_state example_url))"
    by (simp add:
          example_url_def update_items_def initial_state_def final_stopped_at_scan_def
          workflow_stops_at_scan_def terminal_record_def current_stage_def
          is_sequence_field_def)
  have h3: "current_stage (final_stopped_at_scan (initial_state example_url)) = Some SCAN"
    by (simp add:
          example_url_def update_items_def initial_state_def final_stopped_at_scan_def
          workflow_stops_at_scan_def current_stage_def)
  from other_stage_gives_incomplete [where invoke = workflow_stops_at_scan
      and value_of = stage_name, OF h1 h2 h3]
  show ?thesis by (simp add: stage_name_def)
qed

section \<open>The counts in the result\<close>

text \<open>
  C5, as stated, fails: the result of a run that ends at ERROR has no
  \<^verbatim>\<open>vulnerabilities_found\<close>.
\<close>

theorem counts_in_every_result_counterexample:
  "workflow_clone_failure (initial_state example_url)
     = Inr (final_clone_failure (initial_state example_url)) \<and>
   terminal_record (final_clone_failure (initial_state example_url)) \<and>
   map_of (process_repository stage_name workflow_clone_failure example_url)
     ''vulnerabilities_found'' = None"
  by (simp add:
        example_url_def update_items_def initial_state_def final_clone_failure_def
        workflow_clone_failure_def process_repository_def process_results_def bind_exn_def
        getitem_def get_def py_len_def attr_value_def truthy_def stage_name_def
        terminal_record_def current_stage_def is_sequence_field_def)

text \<open>
  C5, amended. For every repository URL and every behaviour of the workflow, the returned
  dictionary has an integer \<^verbatim>\<open>fixes_applied\<close>; it has an integer
  \<^verbatim>\<open>vulnerabilities_found\<close> when its status is success or incomplete, and no
  \<^verbatim>\<open>vulnerabilities_found\<close> when its status is error.
\<close>

theorem counts_in_result:
  "(\<exists>n. map_of (process_repository value_of invoke repo_url) ''fixes_applied''
          = Some (PInt n)) \<and>
   (map_of (process_repository value_of invoke repo_url) ''status'' = Some (PStr ''error'') \<longrightarrow>
      map_of (process_repository value_of invoke repo_url) ''vulnerabilities_found'' = None) \<and>
   (map_of (process_repository value_of invoke repo_url) ''status'' \<noteq> Some (PStr ''error'') \<longrightarrow>
      (\<exists>m. map_of (process_repository value_of invoke repo_url) ''vulnerabilities_found''
          = Some (PInt m)))"
proof (cases "bind_exn (invoke (initial_state repo_url)) (process_results value_of)")
  case (Inl e)
  then show ?thesis by (simp add: process_repository_def)
next
  case (Inr r)
  then obtain fs where fs: "process_results value_of fs = Inr r"
    by (auto simp: bind_exn_def split: sum.splits)
  from Inr have pr: "process_repository value_of invoke repo_url = r"
    by (simp add: process_repository_def)
  from fs show ?thesis unfolding pr
    by (auto simp: process_results_def bind_exn_def split: sum.splits if_splits)
qed

theorem counts_in_result_witness:
  "(map_of (process_repository stage_name workflow_clone_failure example_url) ''status''
      = Some (PStr ''error'') \<and>
    map_of (process_repository stage_name workflow_clone_failure example_url) ''fixes_applied''
      = Some (PInt 0) \<and>
    map_of (process_repository stage_name workflow_clone_failure example_url)
      ''vulnerabilities_found'' = None) \<and>
   (map_of (process_repository stage_name workflow_complete example_url) ''status''
      \<noteq> Some (PStr ''error'') \<and>
    map_of (process_repository stage_name workflow_complete example_url) ''fixes_applied''
      = Some (PInt 1) \<and>
    map_of (process_repository stage_name workflow_complete example_url)
      ''vulnerabilities_found'' = Some (PInt 3))"
proof -
  have e: "map_of (process_repository stage_name workflow_clone_failure example_url) ''status''
      = Some (PStr ''error'')"
    by (simp add:
          example_url_def update_items_def initial_state_def final_clone_failure_def
          workflow_clone_failure_def final_complete_def workflow_complete_def
          process_repository_def process_results_def bind_exn_def getitem_def get_def
          py_len_def attr_value_def truthy_def stage_name_def terminal_record_def
          current_stage_def is_sequence_field_def)
  have f0: "map_of (process_repository stage_name workflow_clone_failure example_url)
      ''fixes_applied'' = Some (PInt 0)"
    by (simp add:
          example_url_def update_items_def initial_state_def final_clone_failure_def
          workflow_clone_failure_def final_complete_def workflow_complete_def
          process_repository_def process_results_def bind_exn_def getitem_def get_def
          py_len_def attr_value_def truthy_def stage_name_def terminal_record_def
          current_stage_def is_sequence_field_def)
  have s: "map_of (process_repository stage_name workflow_complete example_url) ''status''
      \<noteq> Some (PStr ''error'')"
    by (simp add:
          example_url_def update_items_def initial_state_def final_clone_failure_def
          workflow_clone_failure_def final_complete_def workflow_complete_def
          process_repository_def process_results_def bind_exn_def getitem_def get_def
          py_len_def attr_value_def truthy_def stage_name_def terminal_record_def
          current_stage_def is_sequence_field_def)
  have f1: "map_of (process_repository stage_name workflow_complete example_url)
      ''fixes_applied'' = Some (PInt 1)"
    by (simp add:
          example_url_def update_items_def initial_state_def final_clone_failure_def
          workflow_clone_failure_def final_complete_def workflow_complete_def
          process_repository_def process_results_def bind_exn_def getitem_def get_def
          py_len_def attr_value_def truthy_def stage_name_def terminal_record_def
          current_stage_def is_sequence_field_def)
  have v3: "\<And>m. map_of (process_repository stage_name workflow_complete example_url)
      ''vulnerabilities_found'' = Some (PInt m) \<Longrightarrow> m = 3"
    by (simp add:
          example_url_def update_items_def initial_state_def final_clone_failure_def
          workflow_clone_failure_def final_complete_def workflow_complete_def
          process_repository_def process_results_def bind_exn_def getitem_def get_def
          py_len_def attr_value_def truthy_def stage_name_def terminal_record_def
          current_stage_def is_sequence_field_def)
  from counts_in_result [of stage_name workflow_clone_failure example_url] e
  have a: "map_of (process_repository stage_name workflow_clone_failure example_url)
      ''vulnerabilities_found'' = None" by blast
  from counts_in_result [of stage_name workflow_complete example_url] s
  obtain m where "map_of (process_repository stage_name workflow_complete example_url)
      ''vulnerabilities_found'' = Some (PInt m)" by blast
  with v3 have b: "map_of (process_repository stage_name workflow_complete example_url)
      ''vulnerabilities_found'' = Some (PInt 3)" by blast
  from e f0 a s f1 b show ?thesis by blast
qed

section \<open>Failures of the workflow\<close>




section \<open>Determinism of the interpretation\<close>

text \<open>
  C7. The result is a function of the terminal record alone: two runs whose workflows
  return the same record give identical results, whatever the workflows and the
  repository URLs are.
\<close>

theorem interpretation_deterministic:
  assumes "invoke_a (initial_state repo_url_a) = Inr fs"
    and "invoke_b (initial_state repo_url_b) = Inr fs"
  shows "process_repository value_of invoke_a repo_url_a =
         process_repository value_of invoke_b repo_url_b"
  using assms by (simp add: process_repository_def bind_exn_def)

theorem interpretation_deterministic_witness:
  "workflow_publish_failure (initial_state example_url)
     = Inr (final_publish_failure (initial_state example_url)) \<and>
   (\<lambda>s. Inr (final_publish_failure (initial_state example_url))) (initial_state ''file:///srv/r'')
     = (Inr (final_publish_failure (initial_state example_url)) :: exn + pydict) \<and>
   process_repository stage_name workflow_publish_failure example_url =
   process_repository stage_name
     (\<lambda>s. Inr (final_publish_failure (initial_state example_url))) ''file:///srv/r''"
proof -
  have h1: "workflow_publish_failure (initial_state example_url)
     = Inr (final_publish_failure (initial_state example_url))"
    by (simp add: workflow_publish_failure_def)
  have h2: "(\<lambda>s. Inr (final_publish_failure (initial_state example_url)))
       (initial_state ''file:///srv/r'')
     = (Inr (final_publish_failure (initial_state example_url)) :: exn + pydict)"
    by simp
  from interpretation_deterministic [where
      invoke_a = workflow_publish_failure and repo_url_a = example_url and
      invoke_b = "\<lambda>s. Inr (final_publish_failure (initial_state example_url))" and
      repo_url_b = "''file:///srv/r''" and value_of = stage_name, OF h1 h2] h1
  show ?thesis by simp
qed

section \<open>The initial record\<close>


section \<open>The error payload\<close>

text \<open>
  C9. When the workflow returns a record at stage ERROR, the result has exactly the keys
  \<^verbatim>\<open>status\<close>, \<^verbatim>\<open>error\<close> and \<^verbatim>\<open>fixes_applied\<close>: \<^verbatim>\<open>fixes_applied\<close>
  is 0 and there is no \<^verbatim>\<open>vulnerabilities_found\<close>, whatever the record's reviewed
  fixes and vulnerabilities are.
\<close>

theorem error_payload_counts:
  assumes "invoke (initial_state repo_url) = Inr fs"
    and "map_of fs ''current_state'' = Some (PEnum ERROR)"
  shows "map_of (process_repository value_of invoke repo_url) ''fixes_applied''
           = Some (PInt 0) \<and>
         map_of (process_repository value_of invoke repo_url) ''vulnerabilities_found'' = None \<and>
         map fst (process_repository value_of invoke repo_url)
           = [''status'', ''error'', ''fixes_applied'']"
  using assms(1) process_results_ERROR [OF assms(2), of value_of]
  by (simp add: process_repository_def bind_exn_def)

theorem error_payload_counts_witness:
  "map_of (final_publish_failure (initial_state example_url)) ''current_state''
     = Some (PEnum ERROR) \<and>
   map_of (final_publish_failure (initial_state example_url)) ''reviewed_fixes''
     = Some (PList [PStr ''F1'']) \<and>
   map_of (final_publish_failure (initial_state example_url)) ''vulnerabilities''
     = Some (PList [PStr ''V1'', PStr ''V2'', PStr ''V3'']) \<and>
   map_of (process_repository stage_name workflow_publish_failure example_url) ''fixes_applied''
     = Some (PInt 0) \<and>
   map_of (process_repository stage_name workflow_publish_failure example_url)
     ''vulnerabilities_found'' = None"
proof -
  have h1: "workflow_publish_failure (initial_state example_url)
     = Inr (final_publish_failure (initial_state example_url))"
    by (simp add: workflow_publish_failure_def)
  have h2: "map_of (final_publish_failure (initial_state example_url)) ''current_state''
     = Some (PEnum ERROR)"
    by (simp add:
          example_url_def update_items_def initial_state_def final_publish_failure_def
          workflow_publish_failure_def)
  have h3: "map_of (final_publish_failure (initial_state example_url)) ''reviewed_fixes''
     = Some (PList [PStr ''F1''])"
    by (simp add:
          example_url_def update_items_def initial_state_def final_publish_failure_def
          workflow_publish_failure_def)
  have h4: "map_of (final_publish_failure (initial_state example_url)) ''vulnerabilities''
     = Some (PList [PStr ''V1'', PStr ''V2'', PStr ''V3''])"
    by (simp add:
          example_url_def update_items_def initial_state_def final_publish_failure_def
          workflow_publish_failure_def)
  from error_payload_counts [where invoke = workflow_publish_failure
      and value_of = stage_name, OF h1 h2] h2 h3 h4
  show ?thesis by simp
qed

section \<open>Exit codes\<close>

text \<open>
  C10, as stated, fails: in a run that reaches the printing of a result with status
  success, a standard output that is a closed pipe makes \<^verbatim>\<open>print_results\<close> raise
  an \<^verbatim>\<open>OSError\<close>, and \<^verbatim>\<open>main\<close> returns 1.
\<close>

theorem main_exit_code_counterexample:
  "OrchestratorApp_process_repository stage_name (raising_Exceptions workflow_complete) example_url
     = Inr (process_repository stage_name workflow_complete example_url) \<and>
   map_of (process_repository stage_name workflow_complete example_url) ''status''
     = Some (PStr ''success'') \<and>
   main_process stage_name (raising_Exceptions workflow_complete) print_broken_pipe example_url
     = Inr 1"
  by (simp add: main_process_def main_except_def print_broken_pipe_def
        OrchestratorApp_process_repository_Exceptions)
     (simp add: example_url_def update_items_def initial_state_def final_complete_def
        workflow_complete_def process_repository_def process_results_def bind_exn_def
        getitem_def get_def py_len_def attr_value_def)

text \<open>
  C10, amended. When the method returns a result and \<^verbatim>\<open>print_results\<close> returns
  without raising, \<^verbatim>\<open>main\<close> returns 0 exactly when the status of the result is
  success, 1 exactly when it is error, and 2 exactly when it is neither. The exit code
  chosen at lines 123 to 128 is 0, 1 or 2 in this way for every dictionary with a status.
\<close>

theorem main_exit_code:
  assumes "OrchestratorApp_process_repository value_of invoke repo_url = Inr result"
    and "print_results result = None"
  shows "(main_process value_of invoke print_results repo_url = Inr 0
            \<longleftrightarrow> map_of result ''status'' = Some (PStr ''success'')) \<and>
         (main_process value_of invoke print_results repo_url = Inr 1
            \<longleftrightarrow> map_of result ''status'' = Some (PStr ''error'')) \<and>
         (main_process value_of invoke print_results repo_url = Inr 2
            \<longleftrightarrow> map_of result ''status'' \<noteq> Some (PStr ''success'') \<and>
                 map_of result ''status'' \<noteq> Some (PStr ''error'')) \<and>
         (map_of d ''status'' = Some s \<longrightarrow>
            exit_code d =
              Inr (if s = PStr ''success'' then 0 else if s = PStr ''error'' then 1 else 2))"
proof -
  obtain st where st: "map_of result ''status'' = Some st"
    using OrchestratorApp_process_repository_status [OF assms(1)] by auto
  have "main_process value_of invoke print_results repo_url =
      Inr (if st = PStr ''success'' then 0 else if st = PStr ''error'' then 1 else 2)"
    using assms exit_code_status [OF st]
    by (simp add: main_process_def)
  with st show ?thesis
    by (auto simp: exit_code_status)
qed

theorem main_exit_code_witness:
  "OrchestratorApp_process_repository stage_name (raising_Exceptions workflow_stops_at_scan)
       example_url
     = Inr (process_repository stage_name workflow_stops_at_scan example_url) \<and>
   print_succeeds (process_repository stage_name workflow_stops_at_scan example_url) = None \<and>
   map_of (process_repository stage_name workflow_stops_at_scan example_url) ''status''
     = Some (PStr ''incomplete'') \<and>
   main_process stage_name (raising_Exceptions workflow_stops_at_scan) print_succeeds example_url
     = Inr 2 \<and>
   map_of [(''status'', PStr ''partial'')] ''status'' = Some (PStr ''partial'') \<and>
   exit_code [(''status'', PStr ''partial'')] = Inr 2"
proof -
  have h1: "OrchestratorApp_process_repository stage_name
       (raising_Exceptions workflow_stops_at_scan) example_url
     = Inr (process_repository stage_name workflow_stops_at_scan example_url)"
    by (rule OrchestratorApp_process_repository_Exceptions)
  have h2: "print_succeeds (process_repository stage_name workflow_stops_at_scan example_url)
     = None"
    by (simp add: print_succeeds_def)
  have h3: "map_of (process_repository stage_name workflow_stops_at_scan example_url) ''status''
     = Some (PStr ''incomplete'')"
    by (simp add: example_url_def update_items_def initial_state_def final_stopped_at_scan_def
          workflow_stops_at_scan_def process_repository_def process_results_def bind_exn_def
          getitem_def get_def py_len_def attr_value_def)
  have h4: "map_of [(''status'', PStr ''partial'')] ''status'' = Some (PStr ''partial'')"
    by simp
  from main_exit_code [where invoke = "raising_Exceptions workflow_stops_at_scan"
      and value_of = stage_name and print_results = print_succeeds
      and d = "[(''status'', PStr ''partial'')]" and s = "PStr ''partial''", OF h1 h2]
    h1 h2 h3 h4
  show ?thesis by simp
qed

end
